theory Spec2Isabelle
  imports Complex_Main
begin

section \<open>Values and errors\<close>

text \<open>
  Agent configurations, the YAML settings document and everything read back from JSON files
  are Python dictionaries of dynamically typed values. A dictionary is an association list
  (insertion order, as Python keeps it); a lookup takes the first binding of the key.
  Python floats are modelled as reals.
\<close>

datatype jval =
  JNull
| JBool bool
| JInt int
| JReal real
| JStr string
| JList "jval list"
| JDict "(string \<times> jval) list"

type_synonym dict = "(string \<times> jval) list"

text \<open>Python truthiness (\<^verbatim>\<open>if not x\<close>).\<close>

fun truthy :: "jval \<Rightarrow> bool" where
  "truthy JNull = False"
| "truthy (JBool b) = b"
| "truthy (JInt i) = (i \<noteq> 0)"
| "truthy (JReal r) = (r \<noteq> 0)"
| "truthy (JStr s) = (s \<noteq> [])"
| "truthy (JList xs) = (xs \<noteq> [])"
| "truthy (JDict d) = (d \<noteq> [])"

text \<open>\<^verbatim>\<open>d.get(k, default)\<close> and \<^verbatim>\<open>d[k] = v\<close> on an association list.\<close>

definition dict_get :: "(string \<times> 'v) list \<Rightarrow> string \<Rightarrow> 'v \<Rightarrow> 'v" where
  "dict_get d k dflt = (case map_of d k of None \<Rightarrow> dflt | Some v \<Rightarrow> v)"

fun dict_set :: "(string \<times> 'v) list \<Rightarrow> string \<Rightarrow> 'v \<Rightarrow> (string \<times> 'v) list" where
  "dict_set [] k v = [(k, v)]"
| "dict_set ((k', v') # d) k v = (if k' = k then (k, v) # d else (k', v') # dict_set d k v)"

text \<open>The storage calls of the ledger at which the SQLite layer can raise.\<close>

datatype step =
  Insert_conversation
| Select_stats
| Write_stats
| Commit
| Select_conversations
| Decode_usage
| Count_conversations
| Delete_conversations
| Delete_logs

text \<open>
  Every exception of the source is a value. \<open>NoConnection\<close> is the \<^verbatim>\<open>AttributeError\<close> of
  calling \<^verbatim>\<open>.cursor()\<close> on \<^verbatim>\<open>self.connection = None\<close>; \<open>StorageError s\<close> is an
  \<^verbatim>\<open>sqlite3.Error\<close> (or a decoding error) raised by storage call \<open>s\<close>; \<open>OverflowError\<close> and
  \<open>BindingError\<close> are raised by the \<^verbatim>\<open>sqlite3\<close> module when a statement parameter is an
  integer outside 64 bits or a value of a type it cannot bind; \<open>LibraryError\<close> is whatever
  a constructor or a registration of the model library raises; \<open>HTTPException\<close>
  carries status and detail, \<open>BadRequest e\<close> is
  \<^verbatim>\<open>HTTPException(status_code=400, detail=str(e))\<close>; \<open>AgentNotFound\<close>, \<open>UnsupportedModelProvider\<close> and
  \<open>FailedToCreateAgentInstance\<close> are the three \<^verbatim>\<open>ValueError\<close>s of the agent manager;
  \<open>RuntimeInvocationError\<close> is whatever \<^verbatim>\<open>agent.run\<close> raises.
\<close>

datatype error =
  NoConnection
| StorageError step
| OverflowError
| BindingError
| LibraryError
| HTTPException nat string
| BadRequest error
| AgentNotFound string
| UnsupportedModelProvider jval
| FailedToCreateAgentInstance error
| TypeError
| AttributeError
| IOError
| RuntimeInvocationError

section \<open>External collaborators\<close>

text \<open>
  A value held in an SQLite column: NULL, a 64-bit INTEGER, a REAL or a TEXT.
\<close>

datatype sqlval = SNull | SInt int | SReal real | SText string

text \<open>
  A runtime handle is an object of the model library: it records the model class with the
  model name, temperature and token limit it was built with, the system prompt and the
  tool functions registered on it.
\<close>

datatype model_inst =
  OpenAIModel jval jval jval
| AnthropicModel jval jval jval
| GeminiModel jval jval jval

datatype tool = Web_search_tool | Calculator_tool | File_reader_tool

record handle =
  h_model :: model_inst
  h_system_prompt :: jval
  h_tools :: "tool list"

text \<open>The result of a model invocation: the response text and the usage, if any.\<close>

record run_result =
  data :: string
  result_usage :: "dict option"

text \<open>
  What the repository calls but does not contain is a parameter of the model.
  Of the model library: whether the constructor of a model class raises for its
  arguments (\<open>model_raises\<close>), whether \<^verbatim>\<open>Agent(model=..., system_prompt=...)\<close> raises
  (\<open>agent_raises\<close>), whether \<^verbatim>\<open>agent.tool(f)\<close> raises (\<open>tool_raises\<close>), and the model
  invocation \<^verbatim>\<open>agent.run(message)\<close> (\<open>run\<close>).
  Of SQLite: whether a failure of a storage call makes the engine roll the open
  transaction back by itself, as it does when the disk is full (\<open>rolls_back\<close>); the value of
  \<open>a + b\<close> when an operand is a REAL or a TEXT or when the integer sum leaves 64 bits
  (\<open>add_other\<close>, floating point); and the value an INTEGER column keeps when a REAL or a
  TEXT is stored in it (\<open>store_other\<close>).
\<close>

record external =
  model_raises :: "model_inst \<Rightarrow> bool"
  agent_raises :: "model_inst \<Rightarrow> jval \<Rightarrow> bool"
  tool_raises :: "tool \<Rightarrow> bool"
  run :: "handle \<Rightarrow> string \<Rightarrow> error + run_result"
  rolls_back :: "step \<Rightarrow> bool"
  add_other :: "sqlval \<Rightarrow> sqlval \<Rightarrow> sqlval"
  store_other :: "sqlval \<Rightarrow> sqlval"

section \<open>Conversation ledger (utils/database.py)\<close>

text \<open>
  Token usage is a dictionary (\<^verbatim>\<open>Optional[Dict]\<close>) whose values are of any type. SQLite's
  \<^verbatim>\<open>CURRENT_TIMESTAMP\<close> is a number of seconds; the ISO strings of
  \<^verbatim>\<open>datetime.now().isoformat()\<close> stay strings.
\<close>

record message =
  role :: string
  content :: string
  timestamp :: string
  usage :: "dict option"

record conversation_row =
  c_id :: nat
  c_agent_id :: string
  c_user_message :: string
  c_agent_response :: string
  c_user_message_timestamp :: string
  c_agent_response_timestamp :: string
  c_usage_data :: "dict option"
  c_created_at :: int

record stats_row =
  s_id :: nat
  s_agent_id :: string
  total_conversations :: sqlval
  total_tokens_used :: sqlval
  last_used :: "int option"
  s_created_at :: int
  s_updated_at :: int

record log_row =
  l_id :: nat
  l_level :: string
  l_message :: string
  l_details :: "string option"
  l_timestamp :: int

text \<open>The three tables with the counters behind \<^verbatim>\<open>AUTOINCREMENT\<close>.\<close>

record tables =
  conversations :: "conversation_row list"
  conversations_seq :: nat
  agent_stats :: "stats_row list"
  agent_stats_seq :: nat
  system_logs :: "log_row list"
  system_logs_seq :: nat

text \<open>
  A \<^verbatim>\<open>sqlite3\<close> connection in Python's default transaction mode: an INSERT, UPDATE or DELETE
  opens a transaction implicitly and its effect stays in the connection's own view
  (\<open>pending\<close>) until \<^verbatim>\<open>commit()\<close> copies that view to the file (\<open>durable\<close>). The source
  never calls \<^verbatim>\<open>rollback()\<close>. \<^verbatim>\<open>self.connection\<close> is \<^verbatim>\<open>None\<close> until \<^verbatim>\<open>init_db\<close> succeeds.
\<close>

record connection =
  durable :: tables
  pending :: tables

type_synonym database = "connection option"

definition commit :: "connection \<Rightarrow> connection" where
  "commit conn = conn\<lparr>durable := pending conn\<rparr>"

definition empty_tables :: tables where
  "empty_tables = \<lparr>conversations = [], conversations_seq = 0, agent_stats = [],
     agent_stats_seq = 0, system_logs = [], system_logs_seq = 0\<rparr>"

definition init_db :: database where
  "init_db = Some \<lparr>durable = empty_tables, pending = empty_tables\<rparr>"

definition no_faults :: "step \<Rightarrow> bool" where
  "no_faults s = False"

subsection \<open>Statement parameters and arithmetic\<close>

definition in_int64 :: "int \<Rightarrow> bool" where
  "in_int64 i = (- (2 ^ 63) \<le> i \<and> i < 2 ^ 63)"

text \<open>
  How the \<^verbatim>\<open>sqlite3\<close> module binds a Python value to a \<^verbatim>\<open>?\<close>: \<^verbatim>\<open>None\<close> is NULL, a
  \<^verbatim>\<open>bool\<close> is the integer 0 or 1, an \<^verbatim>\<open>int\<close> within 64 bits is an INTEGER and raises
  \<^verbatim>\<open>OverflowError\<close> otherwise, a \<^verbatim>\<open>float\<close> is a REAL, a \<^verbatim>\<open>str\<close> a TEXT; a list or a dictionary
  cannot be bound.
\<close>

fun bind :: "jval \<Rightarrow> error + sqlval" where
  "bind JNull = Inr SNull"
| "bind (JBool b) = Inr (SInt (if b then 1 else 0))"
| "bind (JInt i) = (if in_int64 i then Inr (SInt i) else Inl OverflowError)"
| "bind (JReal r) = Inr (SReal r)"
| "bind (JStr s) = Inr (SText s)"
| "bind (JList xs) = Inl BindingError"
| "bind (JDict d) = Inl BindingError"

text \<open>
  \<open>a + b\<close> in SQL: NULL when an operand is NULL; the integer sum of two INTEGERs when it
  fits 64 bits; what SQLite computes in floating point otherwise.
\<close>

definition sql_add :: "external \<Rightarrow> sqlval \<Rightarrow> sqlval \<Rightarrow> sqlval" where
  "sql_add ext a b =
     (case a of
        SNull \<Rightarrow> SNull
      | SInt x \<Rightarrow>
          (case b of
             SNull \<Rightarrow> SNull
           | SInt y \<Rightarrow> if in_int64 (x + y) then SInt (x + y) else add_other ext a b
           | _ \<Rightarrow> add_other ext a b)
      | _ \<Rightarrow> (case b of SNull \<Rightarrow> SNull | _ \<Rightarrow> add_other ext a b))"

text \<open>A value stored in a column declared INTEGER.\<close>

definition integer_affinity :: "external \<Rightarrow> sqlval \<Rightarrow> sqlval" where
  "integer_affinity ext v =
     (case v of SNull \<Rightarrow> SNull | SInt i \<Rightarrow> SInt i | _ \<Rightarrow> store_other ext v)"

text \<open>
  A storage call of an append that fails: the error, and the connection with its open
  transaction either kept or rolled back by the engine.
\<close>

definition failed :: "external \<Rightarrow> step \<Rightarrow> connection \<Rightarrow> (error + unit) \<times> connection" where
  "failed ext s conn =
     (Inl (StorageError s), if rolls_back ext s then conn\<lparr>pending := durable conn\<rparr> else conn)"

subsection \<open>append: save_conversation and _update_agent_stats\<close>

definition insert_conversation ::
  "int \<Rightarrow> string \<Rightarrow> message \<Rightarrow> message \<Rightarrow> tables \<Rightarrow> tables" where
  "insert_conversation now agent_id user_message agent_message t =
     t\<lparr>conversations := conversations t @
          [\<lparr>c_id = Suc (conversations_seq t),
            c_agent_id = agent_id,
            c_user_message = content user_message,
            c_agent_response = content agent_message,
            c_user_message_timestamp = timestamp user_message,
            c_agent_response_timestamp = timestamp agent_message,
            c_usage_data = (case usage agent_message of None \<Rightarrow> None
                            | Some u \<Rightarrow> if u = [] then None else Some u),
            c_created_at = now\<rparr>],
       conversations_seq := Suc (conversations_seq t)\<rparr>"

text \<open>Lines 113 to 115: \<^verbatim>\<open>tokens_used = 0; if usage_data: tokens_used = usage_data.get("total_tokens", 0)\<close>.\<close>

definition tokens_used :: "dict option \<Rightarrow> jval" where
  "tokens_used usage_data =
     (case usage_data of None \<Rightarrow> JInt 0
      | Some u \<Rightarrow> if u = [] then JInt 0 else dict_get u ''total_tokens'' (JInt 0))"

definition select_stats :: "tables \<Rightarrow> string \<Rightarrow> stats_row option" where
  "select_stats t agent_id = find (\<lambda>r. s_agent_id r = agent_id) (agent_stats t)"

definition update_stats_row :: "external \<Rightarrow> int \<Rightarrow> sqlval \<Rightarrow> stats_row \<Rightarrow> stats_row" where
  "update_stats_row ext now tokens r =
     r\<lparr>total_conversations := integer_affinity ext (sql_add ext (total_conversations r) (SInt 1)),
       total_tokens_used := integer_affinity ext (sql_add ext (total_tokens_used r) tokens),
       last_used := Some now,
       s_updated_at := now\<rparr>"

definition new_stats_row :: "external \<Rightarrow> int \<Rightarrow> nat \<Rightarrow> string \<Rightarrow> sqlval \<Rightarrow> stats_row" where
  "new_stats_row ext now n agent_id tokens =
     \<lparr>s_id = n, s_agent_id = agent_id, total_conversations = SInt 1,
      total_tokens_used = integer_affinity ext tokens,
      last_used = Some now, s_created_at = now, s_updated_at = now\<rparr>"

text \<open>
  The token count is bound as a parameter of the UPDATE or INSERT; a value that cannot be
  bound raises before the statement runs and leaves the open transaction as it is.
\<close>

definition update_agent_stats ::
  "external \<Rightarrow> (step \<Rightarrow> bool) \<Rightarrow> int \<Rightarrow> connection \<Rightarrow> string \<Rightarrow> dict option \<Rightarrow>
     (error + unit) \<times> connection" where
  "update_agent_stats ext fails now conn agent_id usage_data =
     (if fails Select_stats then failed ext Select_stats conn
      else
        let t = pending conn;
            stats = select_stats t agent_id
        in (case bind (tokens_used usage_data) of
              Inl e \<Rightarrow> (Inl e, conn)
            | Inr tokens \<Rightarrow>
                if fails Write_stats then failed ext Write_stats conn
                else (case stats of
                        Some _ \<Rightarrow>
                          (Inr (), conn\<lparr>pending := t\<lparr>agent_stats :=
                             map (\<lambda>r. if s_agent_id r = agent_id
                                       then update_stats_row ext now tokens r else r)
                               (agent_stats t)\<rparr>\<rparr>)
                      | None \<Rightarrow>
                          (Inr (), conn\<lparr>pending := t\<lparr>agent_stats := agent_stats t @
                               [new_stats_row ext now (Suc (agent_stats_seq t)) agent_id tokens],
                             agent_stats_seq := Suc (agent_stats_seq t)\<rparr>\<rparr>))))"

text \<open>
  The body of the \<^verbatim>\<open>try\<close> block. The code never rolls back: after an exception the writes
  made so far stay in the open transaction unless the engine itself rolled it back.
\<close>

definition save_conversation_body ::
  "external \<Rightarrow> (step \<Rightarrow> bool) \<Rightarrow> int \<Rightarrow> database \<Rightarrow> string \<Rightarrow> message \<Rightarrow> message \<Rightarrow>
     (error + unit) \<times> database" where
  "save_conversation_body ext fails now db agent_id user_message agent_message =
     (case db of
        None \<Rightarrow> (Inl NoConnection, None)
      | Some conn \<Rightarrow>
          if fails Insert_conversation
          then (case failed ext Insert_conversation conn of (r, conn') \<Rightarrow> (r, Some conn'))
          else
            let conn1 = conn\<lparr>pending :=
                  insert_conversation now agent_id user_message agent_message (pending conn)\<rparr>
            in (case update_agent_stats ext fails now conn1 agent_id (usage agent_message) of
                  (Inl e, conn2) \<Rightarrow> (Inl e, Some conn2)
                | (Inr _, conn2) \<Rightarrow>
                    if fails Commit
                    then (case failed ext Commit conn2 of (r, conn') \<Rightarrow> (r, Some conn'))
                    else (Inr (), Some (commit conn2))))"

text \<open>\<^verbatim>\<open>except Exception as e: print(...)\<close>: the error is printed and the call returns.\<close>

definition save_conversation ::
  "external \<Rightarrow> (step \<Rightarrow> bool) \<Rightarrow> int \<Rightarrow> database \<Rightarrow> string \<Rightarrow> message \<Rightarrow> message \<Rightarrow>
     (error + unit) \<times> database" where
  "save_conversation ext fails now db agent_id user_message agent_message =
     (case save_conversation_body ext fails now db agent_id user_message agent_message of
        (Inl e, db') \<Rightarrow> (Inr (), db')
      | (Inr u, db') \<Rightarrow> (Inr u, db'))"

subsection \<open>Reads: history, stats, totalConversations\<close>

record history_entry =
  h_id :: nat
  h_user_message :: string
  h_agent_response :: string
  h_user_timestamp :: string
  h_agent_timestamp :: string
  h_usage :: "dict option"
  h_created_at :: int

record stats_entry =
  e_agent_id :: string
  e_total_conversations :: sqlval
  e_total_tokens_used :: sqlval
  e_last_used :: "int option"
  e_created_at :: int
  e_updated_at :: int

text \<open>
  \<^verbatim>\<open>LIMIT ?\<close>: the limit is bound as a statement parameter, which raises
  \<^verbatim>\<open>OverflowError\<close> when it does not fit 64 bits; a negative limit means no limit in
  SQLite.
\<close>

definition sql_limit :: "int \<Rightarrow> 'a list \<Rightarrow> error + 'a list" where
  "sql_limit n rows =
     (if \<not> in_int64 n then Inl OverflowError
      else Inr (if n < 0 then rows else take (nat n) rows))"

definition history_entry_of :: "conversation_row \<Rightarrow> history_entry" where
  "history_entry_of row =
     \<lparr>h_id = c_id row,
      h_user_message = c_user_message row,
      h_agent_response = c_agent_response row,
      h_user_timestamp = c_user_message_timestamp row,
      h_agent_timestamp = c_agent_response_timestamp row,
      h_usage = c_usage_data row,
      h_created_at = c_created_at row\<rparr>"

text \<open>
  \<^verbatim>\<open>ORDER BY created_at DESC\<close> is a stable sort on the negated time (SQLite leaves the order
  of equal keys open). \<^verbatim>\<open>json.loads\<close> runs only on rows that carry usage data.
\<close>

definition get_conversation_history_body ::
  "(step \<Rightarrow> bool) \<Rightarrow> database \<Rightarrow> string \<Rightarrow> int \<Rightarrow> error + history_entry list" where
  "get_conversation_history_body fails db agent_id limit =
     (case db of
        None \<Rightarrow> Inl NoConnection
      | Some conn \<Rightarrow>
          (case sql_limit limit (sort_key (\<lambda>r. - c_created_at r)
                   (filter (\<lambda>r. c_agent_id r = agent_id) (conversations (pending conn)))) of
             Inl e \<Rightarrow> Inl e
           | Inr rows \<Rightarrow>
               if fails Select_conversations then Inl (StorageError Select_conversations)
               else if fails Decode_usage \<and> list_ex (\<lambda>r. c_usage_data r \<noteq> None) rows
                 then Inl (StorageError Decode_usage)
               else Inr (map history_entry_of rows)))"

definition get_conversation_history ::
  "(step \<Rightarrow> bool) \<Rightarrow> database \<Rightarrow> string \<Rightarrow> int \<Rightarrow> history_entry list" where
  "get_conversation_history fails db agent_id limit =
     (case get_conversation_history_body fails db agent_id limit of
        Inl e \<Rightarrow> []
      | Inr convs \<Rightarrow> convs)"

definition stats_entry_of :: "stats_row \<Rightarrow> stats_entry" where
  "stats_entry_of row =
     \<lparr>e_agent_id = s_agent_id row,
      e_total_conversations = total_conversations row,
      e_total_tokens_used = total_tokens_used row,
      e_last_used = last_used row,
      e_created_at = s_created_at row,
      e_updated_at = s_updated_at row\<rparr>"

definition get_agent_stats_body ::
  "(step \<Rightarrow> bool) \<Rightarrow> database \<Rightarrow> string \<Rightarrow> error + stats_entry option" where
  "get_agent_stats_body fails db agent_id =
     (case db of
        None \<Rightarrow> Inl NoConnection
      | Some conn \<Rightarrow>
          if fails Select_stats then Inl (StorageError Select_stats)
          else (case select_stats (pending conn) agent_id of
                  Some row \<Rightarrow> Inr (Some (stats_entry_of row))
                | None \<Rightarrow> Inr None))"

definition get_agent_stats ::
  "(step \<Rightarrow> bool) \<Rightarrow> database \<Rightarrow> string \<Rightarrow> stats_entry option" where
  "get_agent_stats fails db agent_id =
     (case get_agent_stats_body fails db agent_id of Inl e \<Rightarrow> None | Inr r \<Rightarrow> r)"

definition get_total_conversations_body :: "(step \<Rightarrow> bool) \<Rightarrow> database \<Rightarrow> error + int" where
  "get_total_conversations_body fails db =
     (case db of
        None \<Rightarrow> Inl NoConnection
      | Some conn \<Rightarrow>
          if fails Count_conversations then Inl (StorageError Count_conversations)
          else Inr (int (length (conversations (pending conn)))))"

definition get_total_conversations :: "(step \<Rightarrow> bool) \<Rightarrow> database \<Rightarrow> int" where
  "get_total_conversations fails db =
     (case get_total_conversations_body fails db of Inl e \<Rightarrow> 0 | Inr n \<Rightarrow> n)"

subsection \<open>purgeOlderThan: cleanup_old_data\<close>

text \<open>
  \<^verbatim>\<open>datetime('now', '-{} days'.format(days))\<close>: for \<open>days \<ge> 0\<close> the time \<open>days\<close> days ago;
  for a negative \<open>days\<close> the modifier reads \<^verbatim>\<open>--N days\<close>, which SQLite rejects, and the
  value is NULL, so that the comparison selects no row. A failing statement of the purge
  is taken to leave the open transaction of the connection as it is.
\<close>

definition cutoff :: "int \<Rightarrow> int \<Rightarrow> int option" where
  "cutoff now days = (if days < 0 then None else Some (now - days * 86400))"

definition older_than :: "int option \<Rightarrow> int \<Rightarrow> bool" where
  "older_than c t = (case c of None \<Rightarrow> False | Some c' \<Rightarrow> t < c')"

definition cleanup_old_data_body ::
  "(step \<Rightarrow> bool) \<Rightarrow> int \<Rightarrow> database \<Rightarrow> int \<Rightarrow> (error + unit) \<times> database" where
  "cleanup_old_data_body fails now db days =
     (case db of
        None \<Rightarrow> (Inl NoConnection, None)
      | Some conn \<Rightarrow>
          if fails Delete_conversations then (Inl (StorageError Delete_conversations), Some conn)
          else
            let t1 = (pending conn)\<lparr>conversations :=
                       filter (\<lambda>r. \<not> older_than (cutoff now days) (c_created_at r))
                         (conversations (pending conn))\<rparr>;
                conn1 = conn\<lparr>pending := t1\<rparr>
            in if fails Delete_logs then (Inl (StorageError Delete_logs), Some conn1)
               else
                 let t2 = t1\<lparr>system_logs :=
                            filter (\<lambda>r. \<not> older_than (cutoff now days) (l_timestamp r))
                              (system_logs t1)\<rparr>;
                     conn2 = conn1\<lparr>pending := t2\<rparr>
                 in if fails Commit then (Inl (StorageError Commit), Some conn2)
                    else (Inr (), Some (commit conn2)))"

definition cleanup_old_data :: "(step \<Rightarrow> bool) \<Rightarrow> int \<Rightarrow> database \<Rightarrow> int \<Rightarrow> database" where
  "cleanup_old_data fails now db days = snd (cleanup_old_data_body fails now db days)"

section \<open>Provider catalog (utils/config_manager.py, config/settings.py)\<close>

text \<open>\<^verbatim>\<open>key.split('.')\<close>.\<close>

fun split_dot :: "string \<Rightarrow> string list" where
  "split_dot [] = [[]]"
| "split_dot (c # cs) =
     (if c = CHR ''.'' then [] # split_dot cs
      else (case split_dot cs of [] \<Rightarrow> [[c]] | w # ws \<Rightarrow> (c # w) # ws))"

text \<open>
  The loop of \<^verbatim>\<open>ConfigManager.get\<close>: descend one key at a time while the value is a
  dictionary that has the key; \<open>None\<close> stands for the early \<^verbatim>\<open>return default\<close>.
\<close>

fun get_path :: "jval \<Rightarrow> string list \<Rightarrow> jval option" where
  "get_path v [] = Some v"
| "get_path (JDict d) (k # ks) =
     (case map_of d k of None \<Rightarrow> None | Some v \<Rightarrow> get_path v ks)"
| "get_path _ (k # ks) = None"

definition cm_get :: "jval \<Rightarrow> string \<Rightarrow> jval \<Rightarrow> jval" where
  "cm_get config key dflt =
     (case get_path config (split_dot key) of None \<Rightarrow> dflt | Some v \<Rightarrow> v)"

definition get_model_config :: "jval \<Rightarrow> string \<Rightarrow> jval" where
  "get_model_config config provider = cm_get config (''models.providers.'' @ provider) JNull"

text \<open>
  \<open>env\<close> is the process environment read by \<^verbatim>\<open>os.getenv\<close>. A truthy entry that is no
  dictionary has no \<^verbatim>\<open>.get\<close>; \<^verbatim>\<open>os.getenv\<close> of a key that is no string is a type error.
\<close>

definition is_provider_configured ::
  "(string \<Rightarrow> string option) \<Rightarrow> jval \<Rightarrow> string \<Rightarrow> error + bool" where
  "is_provider_configured env config provider =
     (let provider_config = get_model_config config provider
      in if \<not> truthy provider_config then Inr False
         else (case provider_config of
                 JDict d \<Rightarrow>
                   (let api_key_env = dict_get d ''api_key_env'' JNull
                    in if \<not> truthy api_key_env then Inr False
                       else (case api_key_env of
                               JStr k \<Rightarrow> Inr (env k \<noteq> None)
                             | _ \<Rightarrow> Inl TypeError))
               | _ \<Rightarrow> Inl AttributeError))"

text \<open>The loop of \<^verbatim>\<open>Settings.get_available_models\<close> over \<^verbatim>\<open>providers.items()\<close>.\<close>

fun available_loop ::
  "(string \<Rightarrow> string option) \<Rightarrow> jval \<Rightarrow> dict \<Rightarrow> dict \<Rightarrow> error + dict" where
  "available_loop env config [] available_models = Inr available_models"
| "available_loop env config ((provider, cfg) # items) available_models =
     (case is_provider_configured env config provider of
        Inl e \<Rightarrow> Inl e
      | Inr False \<Rightarrow> available_loop env config items available_models
      | Inr True \<Rightarrow>
          (case cfg of
             JDict d \<Rightarrow> available_loop env config items
                          (dict_set available_models provider (dict_get d ''models'' (JList [])))
           | _ \<Rightarrow> Inl AttributeError))"

definition get_available_models :: "(string \<Rightarrow> string option) \<Rightarrow> jval \<Rightarrow> error + dict" where
  "get_available_models env config =
     (case cm_get config ''models.providers'' (JDict []) of
        JDict providers \<Rightarrow> available_loop env config providers []
      | _ \<Rightarrow> Inl AttributeError)"

text \<open>The default document written by \<^verbatim>\<open>create_default_config\<close> (provider catalog part).\<close>

definition default_config :: jval where
  "default_config = JDict
     [(''models'', JDict
        [(''default_provider'', JStr ''openai''),
         (''providers'', JDict
            [(''openai'', JDict
                [(''api_key_env'', JStr ''OPENAI_API_KEY''),
                 (''models'', JList [JStr ''gpt-3.5-turbo'', JStr ''gpt-4'',
                                     JStr ''gpt-4-turbo-preview''])]),
             (''anthropic'', JDict
                [(''api_key_env'', JStr ''ANTHROPIC_API_KEY''),
                 (''models'', JList [JStr ''claude-3-haiku-20240307'',
                                     JStr ''claude-3-sonnet-20240229'',
                                     JStr ''claude-3-opus-20240229''])]),
             (''gemini'', JDict
                [(''api_key_env'', JStr ''GEMINI_API_KEY''),
                 (''models'', JList [JStr ''gemini-pro'', JStr ''gemini-pro-vision''])])])])]"

section \<open>Agent definition store (utils/agent_manager.py)\<close>

text \<open>
  \<open>agents_cache\<close> is the in-memory dictionary of definitions, \<open>agent_files\<close> the JSON files
  under \<^verbatim>\<open>agents/\<close>, keyed by agent id.
\<close>

datatype agent_file = Json dict | Truncated

record agent_manager =
  agents_cache :: "(string \<times> dict) list"
  agent_files :: "(string \<times> agent_file) list"

definition get_agent :: "agent_manager \<Rightarrow> string \<Rightarrow> dict option" where
  "get_agent am agent_id = map_of (agents_cache am) agent_id"

text \<open>\<^verbatim>\<open>d.update({...})\<close> with the listed bindings, in order.\<close>

definition dict_update :: "(string \<times> 'v) list \<Rightarrow> (string \<times> 'v) list \<Rightarrow> (string \<times> 'v) list" where
  "dict_update d bs = foldl (\<lambda>acc (k, v). dict_set acc k v) d bs"

text \<open>
  Writing the definition file (\<^verbatim>\<open>with open(agent_file, 'w') as f: json.dump(...)\<close>) either
  succeeds, or \<^verbatim>\<open>open\<close> raises and the disk is as before, or the write raises after the
  file was opened, which leaves a truncated file that is no JSON document.
\<close>

datatype io_outcome = Written | Open_fails | Write_fails

definition write_file ::
  "io_outcome \<Rightarrow> (string \<times> agent_file) list \<Rightarrow> string \<Rightarrow> dict \<Rightarrow> (string \<times> agent_file) list" where
  "write_file io files agent_id cfg =
     (case io of
        Written \<Rightarrow> dict_set files agent_id (Json cfg)
      | Open_fails \<Rightarrow> files
      | Write_fails \<Rightarrow> dict_set files agent_id Truncated)"

text \<open>
  \<open>uid\<close> is the value of \<^verbatim>\<open>str(uuid.uuid4())\<close>, \<open>now1\<close> and \<open>now2\<close> the two readings of
  \<^verbatim>\<open>datetime.now().isoformat()\<close>. The function checks nothing about the configuration,
  and the cache is updated only after the file was written.
\<close>

definition create_agent ::
  "string \<Rightarrow> string \<Rightarrow> string \<Rightarrow> io_outcome \<Rightarrow> agent_manager \<Rightarrow> dict \<Rightarrow>
     (error + string) \<times> agent_manager" where
  "create_agent uid now1 now2 io am agent_config =
     (let agent_id = uid;
          cfg = dict_update agent_config
                  [(''id'', JStr agent_id), (''created_at'', JStr now1), (''updated_at'', JStr now2)];
          am1 = am\<lparr>agent_files := write_file io (agent_files am) agent_id cfg\<rparr>
      in if io \<noteq> Written then (Inl IOError, am1)
         else (Inr agent_id, am1\<lparr>agents_cache := dict_set (agents_cache am) agent_id cfg\<rparr>))"

definition stamp_update :: "dict \<Rightarrow> string \<Rightarrow> string \<Rightarrow> dict \<Rightarrow> dict" where
  "stamp_update original_config agent_id now agent_config =
     dict_update agent_config
       [(''id'', JStr agent_id),
        (''created_at'', dict_get original_config ''created_at'' JNull),
        (''updated_at'', JStr now)]"

definition update_agent ::
  "string \<Rightarrow> io_outcome \<Rightarrow> agent_manager \<Rightarrow> string \<Rightarrow> dict \<Rightarrow>
     (error + unit) \<times> agent_manager" where
  "update_agent now io am agent_id agent_config =
     (case map_of (agents_cache am) agent_id of
        None \<Rightarrow> (Inl (AgentNotFound agent_id), am)
      | Some original_config \<Rightarrow>
          let cfg = stamp_update original_config agent_id now agent_config;
              am1 = am\<lparr>agent_files := write_file io (agent_files am) agent_id cfg\<rparr>
          in if io \<noteq> Written then (Inl IOError, am1)
             else (Inr (), am1\<lparr>agents_cache := dict_set (agents_cache am) agent_id cfg\<rparr>))"

definition dict_del :: "(string \<times> 'v) list \<Rightarrow> string \<Rightarrow> (string \<times> 'v) list" where
  "dict_del d k = filter (\<lambda>(k', v). k' \<noteq> k) d"

definition delete_agent :: "agent_manager \<Rightarrow> string \<Rightarrow> (error + unit) \<times> agent_manager" where
  "delete_agent am agent_id =
     (case map_of (agents_cache am) agent_id of
        None \<Rightarrow> (Inl (AgentNotFound agent_id), am)
      | Some _ \<Rightarrow>
          (Inr (), am\<lparr>agent_files := dict_del (agent_files am) agent_id,
                      agents_cache := dict_del (agents_cache am) agent_id\<rparr>))"

subsection \<open>Runtime handles: create_agent_instance\<close>

text \<open>A constructor of the model library returns the model object or raises.\<close>

definition construct :: "external \<Rightarrow> model_inst \<Rightarrow> error + model_inst" where
  "construct ext m = (if model_raises ext m then Inl LibraryError else Inr m)"

definition get_model :: "external \<Rightarrow> dict \<Rightarrow> error + model_inst" where
  "get_model ext agent_config =
     (let provider = dict_get agent_config ''model_provider'' (JStr ''openai'');
          model_name = dict_get agent_config ''model_name'' (JStr ''gpt-3.5-turbo'');
          temperature = dict_get agent_config ''temperature'' (JReal 0.7);
          max_tokens = dict_get agent_config ''max_tokens'' (JInt 1000)
      in if provider = JStr ''openai''
           then construct ext (OpenAIModel model_name temperature max_tokens)
         else if provider = JStr ''anthropic''
           then construct ext (AnthropicModel model_name temperature max_tokens)
         else if provider = JStr ''gemini''
           then construct ext (GeminiModel model_name temperature max_tokens)
         else Inl (UnsupportedModelProvider provider))"

text \<open>
  \<^verbatim>\<open>tools_map.get(tool_name)\<close>: a list or a dictionary is unhashable and raises; any other
  value that is not one of the three names gives \<^verbatim>\<open>None\<close>.
\<close>

definition get_tool_function :: "jval \<Rightarrow> error + tool option" where
  "get_tool_function tool_name =
     (case tool_name of
        JList _ \<Rightarrow> Inl TypeError
      | JDict _ \<Rightarrow> Inl TypeError
      | JStr n \<Rightarrow>
          Inr (if n = ''web_search'' then Some Web_search_tool
               else if n = ''calculator'' then Some Calculator_tool
               else if n = ''file_reader'' then Some File_reader_tool
               else None)
      | _ \<Rightarrow> Inr None)"

text \<open>What \<^verbatim>\<open>for tool_name in tools\<close> iterates over, by the type of \<open>tools\<close>.\<close>

definition iterate :: "jval \<Rightarrow> error + jval list" where
  "iterate v =
     (case v of
        JList xs \<Rightarrow> Inr xs
      | JStr s \<Rightarrow> Inr (map (\<lambda>c. JStr [c]) s)
      | JDict d \<Rightarrow> Inr (map (\<lambda>(k, _). JStr k) d)
      | _ \<Rightarrow> Inl TypeError)"

fun add_tools :: "external \<Rightarrow> jval list \<Rightarrow> handle \<Rightarrow> error + handle" where
  "add_tools ext [] agent = Inr agent"
| "add_tools ext (tool_name # rest) agent =
     (case get_tool_function tool_name of
        Inl e \<Rightarrow> Inl e
      | Inr None \<Rightarrow> add_tools ext rest agent
      | Inr (Some tool_func) \<Rightarrow>
          if tool_raises ext tool_func then Inl LibraryError
          else add_tools ext rest (agent\<lparr>h_tools := h_tools agent @ [tool_func]\<rparr>))"

definition create_agent_instance_body :: "external \<Rightarrow> dict \<Rightarrow> error + handle" where
  "create_agent_instance_body ext agent_config =
     (case get_model ext agent_config of
        Inl e \<Rightarrow> Inl e
      | Inr model \<Rightarrow>
          let prompt = dict_get agent_config ''system_prompt''
                         (JStr ''You are a helpful AI assistant.'')
          in if agent_raises ext model prompt then Inl LibraryError
             else
               let agent = \<lparr>h_model = model, h_system_prompt = prompt, h_tools = []\<rparr>
               in (case iterate (dict_get agent_config ''tools'' (JList [])) of
                     Inl e \<Rightarrow> Inl e
                   | Inr tool_names \<Rightarrow> add_tools ext tool_names agent))"

definition create_agent_instance :: "external \<Rightarrow> dict \<Rightarrow> error + handle" where
  "create_agent_instance ext agent_config =
     (case create_agent_instance_body ext agent_config of
        Inl e \<Rightarrow> Inl (FailedToCreateAgentInstance e)
      | Inr agent \<Rightarrow> Inr agent)"

section \<open>Request handlers (app.py)\<close>

text \<open>The request body of the create and update routes, after pydantic has typed it.\<close>

record AgentConfig =
  name :: string
  description :: string
  system_prompt :: string
  model_provider :: string
  model_name :: string
  temperature :: real
  max_tokens :: int
  tools :: "string list"
  enabled :: bool

text \<open>\<^verbatim>\<open>agent_config.dict()\<close>.\<close>

definition to_dict :: "AgentConfig \<Rightarrow> dict" where
  "to_dict c =
     [(''name'', JStr (name c)),
      (''description'', JStr (description c)),
      (''system_prompt'', JStr (system_prompt c)),
      (''model_provider'', JStr (model_provider c)),
      (''model_name'', JStr (model_name c)),
      (''temperature'', JReal (temperature c)),
      (''max_tokens'', JInt (max_tokens c)),
      (''tools'', JList (map JStr (tools c))),
      (''enabled'', JBool (enabled c))]"

text \<open>
  The global state of the process: the agent manager, the \<^verbatim>\<open>active_agents\<close> dictionary of
  runtime handles, the in-memory \<^verbatim>\<open>conversation_history\<close> and the database.
\<close>

record app =
  manager :: agent_manager
  active_agents :: "(string \<times> handle) list"
  conversation_history :: "(string \<times> message list) list"
  database :: database

definition api_create_agent ::
  "string \<Rightarrow> string \<Rightarrow> string \<Rightarrow> io_outcome \<Rightarrow> app \<Rightarrow> AgentConfig \<Rightarrow>
     (error + string) \<times> app" where
  "api_create_agent uid now1 now2 io st agent_config =
     (case create_agent uid now1 now2 io (manager st) (to_dict agent_config) of
        (Inl e, am) \<Rightarrow> (Inl (BadRequest e), st\<lparr>manager := am\<rparr>)
      | (Inr agent_id, am) \<Rightarrow> (Inr agent_id, st\<lparr>manager := am\<rparr>))"

definition api_update_agent ::
  "string \<Rightarrow> io_outcome \<Rightarrow> app \<Rightarrow> string \<Rightarrow> AgentConfig \<Rightarrow> (error + unit) \<times> app" where
  "api_update_agent now io st agent_id agent_config =
     (case update_agent now io (manager st) agent_id (to_dict agent_config) of
        (Inl e, am) \<Rightarrow> (Inl (BadRequest e), st\<lparr>manager := am\<rparr>)
      | (Inr _, am) \<Rightarrow> (Inr (), st\<lparr>manager := am\<rparr>))"

definition api_delete_agent :: "app \<Rightarrow> string \<Rightarrow> (error + unit) \<times> app" where
  "api_delete_agent st agent_id =
     (case delete_agent (manager st) agent_id of
        (Inl e, am) \<Rightarrow> (Inl (BadRequest e), st\<lparr>manager := am\<rparr>)
      | (Inr _, am) \<Rightarrow>
          (Inr (), st\<lparr>manager := am,
                      active_agents := dict_del (active_agents st) agent_id,
                      conversation_history := dict_del (conversation_history st) agent_id\<rparr>))"

text \<open>
  \<^verbatim>\<open>toggle_agent\<close> works on the dictionary object that sits in \<^verbatim>\<open>agents_cache\<close>: the
  assignment to \<^verbatim>\<open>"enabled"\<close> and the \<^verbatim>\<open>update\<close> inside \<^verbatim>\<open>update_agent\<close> change the cached
  definition in place, also when writing the file then fails.
\<close>

definition toggle_agent ::
  "string \<Rightarrow> io_outcome \<Rightarrow> app \<Rightarrow> string \<Rightarrow> (error + bool) \<times> app" where
  "toggle_agent now io st agent_id =
     (case get_agent (manager st) agent_id of
        None \<Rightarrow> (Inl (BadRequest (HTTPException 404 ''Agent not found'')), st)
      | Some agent_config \<Rightarrow>
          if agent_config = [] then (Inl (BadRequest (HTTPException 404 ''Agent not found'')), st)
          else
            let flipped = \<not> truthy (dict_get agent_config ''enabled'' (JBool False));
                cfg1 = dict_set agent_config ''enabled'' (JBool flipped);
                am0 = (manager st)\<lparr>agents_cache :=
                        dict_set (agents_cache (manager st)) agent_id cfg1\<rparr>
            in (case update_agent now io am0 agent_id cfg1 of
                  (Inl e, am1) \<Rightarrow>
                    (Inl (BadRequest e),
                     st\<lparr>manager := am1\<lparr>agents_cache := dict_set (agents_cache am1) agent_id
                                         (stamp_update cfg1 agent_id now cfg1)\<rparr>\<rparr>)
                | (Inr _, am1) \<Rightarrow> (Inr flipped, st\<lparr>manager := am1\<rparr>)))"

text \<open>
  Lines 222 to 234 of \<^verbatim>\<open>chat_with_agent\<close>: the handle in \<^verbatim>\<open>active_agents\<close> is used when
  there is one; the definition is read, and its \<^verbatim>\<open>enabled\<close> flag checked, only when there
  is none. \<^verbatim>\<open>get_agent\<close> and \<^verbatim>\<open>create_agent_instance\<close> are coroutines whose bodies never
  suspend, so nothing else runs on the event loop between the membership test of line 222
  and the store of line 231: the first suspension point of the handler is
  \<^verbatim>\<open>await agent.run(message)\<close>.
\<close>

definition get_or_create_instance ::
  "external \<Rightarrow> app \<Rightarrow> string \<Rightarrow> (error + handle) \<times> app" where
  "get_or_create_instance ext st agent_id =
     (case map_of (active_agents st) agent_id of
        Some agent \<Rightarrow> (Inr agent, st)
      | None \<Rightarrow>
          (case get_agent (manager st) agent_id of
             None \<Rightarrow> (Inl (HTTPException 404 ''Agent not found''), st)
           | Some agent_config \<Rightarrow>
               if agent_config = [] then (Inl (HTTPException 404 ''Agent not found''), st)
               else if \<not> truthy (dict_get agent_config ''enabled'' (JBool False))
                 then (Inl (HTTPException 400 ''Agent is disabled''), st)
               else (case create_agent_instance ext agent_config of
                       Inl e \<Rightarrow> (Inl e, st)
                     | Inr agent \<Rightarrow>
                         (Inr agent,
                          st\<lparr>active_agents := dict_set (active_agents st) agent_id agent\<rparr>))))"

definition history_append :: "app \<Rightarrow> string \<Rightarrow> message \<Rightarrow> app" where
  "history_append st agent_id m =
     st\<lparr>conversation_history := dict_set (conversation_history st) agent_id
          (dict_get (conversation_history st) agent_id [] @ [m])\<rparr>"

definition chat_with_agent ::
  "external \<Rightarrow> (step \<Rightarrow> bool) \<Rightarrow> string \<Rightarrow> string \<Rightarrow> int \<Rightarrow>
     app \<Rightarrow> string \<Rightarrow> string \<Rightarrow> (error + string \<times> dict option) \<times> app" where
  "chat_with_agent ext fails t_user t_agent now st agent_id msg =
     (case get_or_create_instance ext st agent_id of
        (Inl e, st1) \<Rightarrow> (Inl e, st1)
      | (Inr agent, st1) \<Rightarrow>
          let user_message = \<lparr>role = ''user'', content = msg, timestamp = t_user, usage = None\<rparr>;
              st2 = history_append st1 agent_id user_message
          in (case run ext agent msg of
                Inl e \<Rightarrow> (Inl e, st2)
              | Inr result \<Rightarrow>
                  let agent_message = \<lparr>role = ''assistant'', content = data result,
                                        timestamp = t_agent, usage = result_usage result\<rparr>;
                      st3 = history_append st2 agent_id agent_message;
                      db' = snd (save_conversation ext fails now (database st3) agent_id
                                   user_message agent_message)
                  in (Inr (data result, result_usage result), st3\<lparr>database := db'\<rparr>)))"



section \<open>Example inputs and states\<close>

text \<open>Fault plans: the storage call \<open>s0\<close> raises, nothing else does.\<close>

definition fail_at :: "step \<Rightarrow> step \<Rightarrow> bool" where
  "fail_at s0 s = (s = s0)"

text \<open>
  \<open>echo_prompt\<close> stands for the collaborators in the examples: the library builds every
  model, agent and tool, and the model answers with the system prompt of the handle it
  runs on, without usage; a failing storage call leaves the transaction open.
\<close>

definition echo_prompt :: external where
  "echo_prompt =
     \<lparr>model_raises = (\<lambda>m. False),
      agent_raises = (\<lambda>m p. False),
      tool_raises = (\<lambda>t. False),
      run = (\<lambda>agent msg.
               Inr \<lparr>data = (case h_system_prompt agent of JStr s \<Rightarrow> s | _ \<Rightarrow> []),
                    result_usage = None\<rparr>),
      rolls_back = (\<lambda>s. False),
      add_other = (\<lambda>a b. SNull),
      store_other = (\<lambda>v. v)\<rparr>"

definition user_msg :: message where
  "user_msg = \<lparr>role = ''user'', content = ''hello'', timestamp = ''t1'', usage = None\<rparr>"

definition agent_msg :: message where
  "agent_msg = \<lparr>role = ''assistant'', content = ''hi there'', timestamp = ''t2'',
                 usage = Some [(''request_tokens'', JInt 5), (''total_tokens'', JInt 15)]\<rparr>"

text \<open>A response whose usage reports \<open>2 ^ 63\<close> total tokens, and one that reports none.\<close>

definition huge_msg :: message where
  "huge_msg = \<lparr>role = ''assistant'', content = ''hi there'', timestamp = ''t2'',
                usage = Some [(''total_tokens'', JInt 9223372036854775808)]\<rparr>"

definition null_msg :: message where
  "null_msg = \<lparr>role = ''assistant'', content = ''hi there'', timestamp = ''t2'',
                usage = Some [(''request_tokens'', JInt 5), (''total_tokens'', JNull)]\<rparr>"

text \<open>
  An append for agent A1 with the huge usage, with no storage fault injected, then an
  ordinary append for agent A2.
\<close>

definition db_failed :: database where
  "db_failed = snd (save_conversation echo_prompt no_faults 100 init_db ''A1'' user_msg huge_msg)"

definition db_later :: database where
  "db_later = snd (save_conversation echo_prompt no_faults 200 db_failed ''A2'' user_msg agent_msg)"

text \<open>
  An append for agent A1 whose usage has no total, then an ordinary append for A1; and an
  ordinary append whose stats write fails.
\<close>

definition db_null :: database where
  "db_null = snd (save_conversation echo_prompt no_faults 100 init_db ''A1'' user_msg null_msg)"

definition db_null_later :: database where
  "db_null_later =
     snd (save_conversation echo_prompt no_faults 200 db_null ''A1'' user_msg agent_msg)"

definition db_write_fault :: database where
  "db_write_fault =
     snd (save_conversation echo_prompt (fail_at Write_stats) 100 init_db ''A1'' user_msg agent_msg)"

definition durable_conversation_agents :: "database \<Rightarrow> string list" where
  "durable_conversation_agents d =
     (case d of None \<Rightarrow> [] | Some c \<Rightarrow> map c_agent_id (conversations (durable c)))"

definition durable_stats_agents :: "database \<Rightarrow> string list" where
  "durable_stats_agents d =
     (case d of None \<Rightarrow> [] | Some c \<Rightarrow> map s_agent_id (agent_stats (durable c)))"

definition durable_token_counts :: "database \<Rightarrow> sqlval list" where
  "durable_token_counts d =
     (case d of None \<Rightarrow> [] | Some c \<Rightarrow> map total_tokens_used (agent_stats (durable c)))"

definition durable_conversation_counts :: "database \<Rightarrow> sqlval list" where
  "durable_conversation_counts d =
     (case d of None \<Rightarrow> [] | Some c \<Rightarrow> map total_conversations (agent_stats (durable c)))"

text \<open>A ledger with an old and a recent exchange of agent A1, its stats row and two log rows.\<close>

definition old_row :: conversation_row where
  "old_row = \<lparr>c_id = 1, c_agent_id = ''A1'', c_user_message = ''hello'',
     c_agent_response = ''hi there'', c_user_message_timestamp = ''t1'',
     c_agent_response_timestamp = ''t2'', c_usage_data = None, c_created_at = 100\<rparr>"

definition recent_row :: conversation_row where
  "recent_row = \<lparr>c_id = 2, c_agent_id = ''A1'', c_user_message = ''again'',
     c_agent_response = ''welcome back'', c_user_message_timestamp = ''t3'',
     c_agent_response_timestamp = ''t4'', c_usage_data = Some [(''total_tokens'', JInt 30)],
     c_created_at = 5000000\<rparr>"

definition stats_A1 :: stats_row where
  "stats_A1 = \<lparr>s_id = 1, s_agent_id = ''A1'', total_conversations = SInt 2,
     total_tokens_used = SInt 30,
     last_used = Some 5000000, s_created_at = 100, s_updated_at = 5000000\<rparr>"

definition old_log :: log_row where
  "old_log = \<lparr>l_id = 1, l_level = ''INFO'', l_message = ''started'', l_details = None,
     l_timestamp = 100\<rparr>"

definition recent_log :: log_row where
  "recent_log = \<lparr>l_id = 2, l_level = ''INFO'', l_message = ''still up'', l_details = None,
     l_timestamp = 5000000\<rparr>"

definition example_tables :: tables where
  "example_tables = \<lparr>conversations = [old_row, recent_row], conversations_seq = 2,
     agent_stats = [stats_A1], agent_stats_seq = 1,
     system_logs = [old_log, recent_log], system_logs_seq = 2\<rparr>"

definition example_conn :: connection where
  "example_conn = \<lparr>durable = example_tables, pending = example_tables\<rparr>"

text \<open>Process environments.\<close>
definition env_blank_openai :: "string \<Rightarrow> string option" where
  "env_blank_openai k = (if k = ''OPENAI_API_KEY'' then Some [] else None)"

definition env_openai :: "string \<Rightarrow> string option" where
  "env_openai k = (if k = ''OPENAI_API_KEY'' then Some ''sk-1'' else None)"

definition default_providers :: dict where
  "default_providers =
     [(''openai'', JDict
         [(''api_key_env'', JStr ''OPENAI_API_KEY''),
          (''models'', JList [JStr ''gpt-3.5-turbo'', JStr ''gpt-4'',
                              JStr ''gpt-4-turbo-preview''])]),
      (''anthropic'', JDict
         [(''api_key_env'', JStr ''ANTHROPIC_API_KEY''),
          (''models'', JList [JStr ''claude-3-haiku-20240307'',
                              JStr ''claude-3-sonnet-20240229'',
                              JStr ''claude-3-opus-20240229''])]),
      (''gemini'', JDict
         [(''api_key_env'', JStr ''GEMINI_API_KEY''),
          (''models'', JList [JStr ''gemini-pro'', JStr ''gemini-pro-vision''])])]"

text \<open>
  A fresh process, an agent A1 created from \<open>draft_A\<close>, one message sent to it (which
  builds and caches its handle), and then either an update of its prompt or a toggle.
\<close>

definition app0 :: app where
  "app0 = \<lparr>manager = \<lparr>agents_cache = [], agent_files = []\<rparr>, active_agents = [],
            conversation_history = [], database = init_db\<rparr>"

definition draft_A :: AgentConfig where
  "draft_A = \<lparr>name = ''A'', description = ''demo'', system_prompt = ''old prompt'',
      model_provider = ''openai'', model_name = ''gpt-4'', temperature = 0.7,
      max_tokens = 1000, tools = [], enabled = True\<rparr>"

definition bad_draft :: AgentConfig where
  "bad_draft = \<lparr>name = [], description = [], system_prompt = [],
      model_provider = [], model_name = [], temperature = 5,
      max_tokens = - 1, tools = [], enabled = True\<rparr>"

definition handle_A :: handle where
  "handle_A = \<lparr>h_model = OpenAIModel (JStr ''gpt-4'') (JReal 0.7) (JInt 1000),
                h_system_prompt = JStr ''old prompt'', h_tools = []\<rparr>"

definition app_created :: app where
  "app_created = snd (api_create_agent ''A1'' ''t0'' ''t0'' Written app0 draft_A)"

definition app_chatted :: app where
  "app_chatted =
     snd (chat_with_agent echo_prompt no_faults ''t1'' ''t2'' 100 app_created ''A1'' ''hello'')"

definition app_updated :: app where
  "app_updated = snd (api_update_agent ''t3'' Written app_chatted ''A1''
                        (draft_A\<lparr>system_prompt := ''new prompt''\<rparr>))"

definition app_toggled :: app where
  "app_toggled = snd (toggle_agent ''t3'' Written app_chatted ''A1'')"

section \<open>Properties of the conversation ledger\<close>

lemma find_map_update:
  "find P xs = Some r \<Longrightarrow> (\<And>x. P (f x) = P x) \<Longrightarrow>
   find P (map (\<lambda>x. if P x then f x else x) xs) = Some (f r)"
  by (induction xs) (auto split: if_splits)

lemma find_append_new:
  "find P xs = None \<Longrightarrow> P y \<Longrightarrow> find P (xs @ [y]) = Some y"
  by (induction xs) (auto split: if_splits)

lemma tokens_used_absent: "tokens_used None = JInt 0"
  by (simp add: tokens_used_def)

lemma tokens_used_total:
  "map_of u ''total_tokens'' = Some v \<Longrightarrow> tokens_used (Some u) = v"
  by (auto simp: tokens_used_def dict_get_def)

lemma failed_durable: "failed ext s conn = (res, conn') \<Longrightarrow> durable conn' = durable conn"
  by (auto simp: failed_def split: if_splits)

lemma update_agent_stats_durable:
  "update_agent_stats ext fails now conn agent_id u = (res, conn') \<Longrightarrow>
     durable conn' = durable conn"
  by (auto simp: update_agent_stats_def failed_def Let_def
      split: if_splits option.splits sum.splits)

lemmas ledger_defs = save_conversation_def save_conversation_body_def update_agent_stats_def
  insert_conversation_def select_stats_def tokens_used_def new_stats_row_def
  update_stats_row_def commit_def init_db_def empty_tables_def no_faults_def fail_at_def
  dict_get_def failed_def sql_add_def integer_affinity_def in_int64_def echo_prompt_def Let_def

lemmas example_ledger_defs = example_conn_def example_tables_def old_row_def recent_row_def
  stats_A1_def old_log_def recent_log_def user_msg_def agent_msg_def

text \<open>
  C6, as the code has it. Take an append that meets no storage failure and whose usage
  gives an integer total \<open>n\<close> within 64 bits (\<open>n = 0\<close> when the usage, or its total, is
  absent), for an agent whose stats row, if there is one, holds integer counts that stay
  within 64 bits. It leaves, committed, a stats row for the agent whose last-used time is
  now; its conversation count is the previous one plus 1 and its token count the previous
  one plus \<open>n\<close>; when the agent had no stats row, the row is new, with count 1 and token
  count \<open>n\<close>.
\<close>

theorem save_conversation_updates_stats:
  assumes ok: "\<not> fails Insert_conversation" "\<not> fails Select_stats"
              "\<not> fails Write_stats" "\<not> fails Commit"
      and tok: "tokens_used (usage am) = JInt n" "in_int64 n"
      and prior: "\<forall>r. select_stats (pending conn) agent_id = Some r \<longrightarrow>
                    (\<exists>c t. total_conversations r = SInt c \<and> total_tokens_used r = SInt t
                           \<and> in_int64 (c + 1) \<and> in_int64 (t + n))"
  shows "\<exists>conn' r'.
           save_conversation ext fails now (Some conn) agent_id um am = (Inr (), Some conn')
         \<and> durable conn' = pending conn'
         \<and> select_stats (durable conn') agent_id = Some r'
         \<and> s_agent_id r' = agent_id
         \<and> last_used r' = Some now
         \<and> (case select_stats (pending conn) agent_id of
               None \<Rightarrow> total_conversations r' = SInt 1 \<and> total_tokens_used r' = SInt n
             | Some r \<Rightarrow>
                 (\<exists>c t. total_conversations r = SInt c \<and> total_tokens_used r = SInt t
                        \<and> total_conversations r' = SInt (c + 1)
                        \<and> total_tokens_used r' = SInt (t + n)))
         \<and> tokens_used None = JInt 0
         \<and> (\<forall>u v. map_of u ''total_tokens'' = Some v \<longrightarrow> tokens_used (Some u) = v)"
proof (cases "select_stats (pending conn) agent_id")
  case None
  let ?new = "new_stats_row ext now (Suc (agent_stats_seq (pending conn))) agent_id (SInt n)"
  from None have "find (\<lambda>r. s_agent_id r = agent_id) (agent_stats (pending conn)) = None"
    by (simp add: select_stats_def)
  from find_append_new[OF this, of ?new]
  have "find (\<lambda>r. s_agent_id r = agent_id) (agent_stats (pending conn) @ [?new]) = Some ?new"
    by (simp add: new_stats_row_def)
  with None ok tok show ?thesis
    by (simp add: save_conversation_def save_conversation_body_def update_agent_stats_def
        insert_conversation_def commit_def select_stats_def Let_def new_stats_row_def
        integer_affinity_def tokens_used_absent tokens_used_total)
next
  case (Some r)
  let ?upd = "update_stats_row ext now (SInt n)"
  from Some prior obtain c t where
    ct: "total_conversations r = SInt c" "total_tokens_used r = SInt t"
        "in_int64 (c + 1)" "in_int64 (t + n)"
    by blast
  from Some have f: "find (\<lambda>r. s_agent_id r = agent_id) (agent_stats (pending conn)) = Some r"
    by (simp add: select_stats_def)
  have "find (\<lambda>r. s_agent_id r = agent_id)
          (map (\<lambda>x. if s_agent_id x = agent_id then ?upd x else x) (agent_stats (pending conn)))
        = Some (?upd r)"
    by (rule find_map_update[OF f]) (simp add: update_stats_row_def)
  moreover from f have "s_agent_id r = agent_id"
    by (auto simp: find_Some_iff)
  moreover from ct have "total_conversations (?upd r) = SInt (c + 1)"
    "total_tokens_used (?upd r) = SInt (t + n)" "last_used (?upd r) = Some now"
    "s_agent_id (?upd r) = s_agent_id r"
    by (simp_all add: update_stats_row_def sql_add_def integer_affinity_def)
  ultimately show ?thesis using Some ok tok ct
    by (simp add: save_conversation_def save_conversation_body_def update_agent_stats_def
        insert_conversation_def commit_def select_stats_def Let_def
        tokens_used_absent tokens_used_total)
qed

theorem save_conversation_updates_stats_witness:
  "\<not> no_faults Insert_conversation \<and> \<not> no_faults Select_stats
   \<and> \<not> no_faults Write_stats \<and> \<not> no_faults Commit
   \<and> select_stats (pending example_conn) ''A1'' = Some stats_A1
   \<and> tokens_used (usage agent_msg) = JInt 15 \<and> in_int64 15
   \<and> (\<exists>conn' r'.
         save_conversation echo_prompt no_faults 6000000 (Some example_conn) ''A1''
             user_msg agent_msg
           = (Inr (), Some conn')
       \<and> select_stats (durable conn') ''A1'' = Some r'
       \<and> last_used r' = Some 6000000
       \<and> total_conversations r' = SInt 3
       \<and> total_tokens_used r' = SInt 45)"
proof -
  have h: "\<not> no_faults Insert_conversation" "\<not> no_faults Select_stats"
          "\<not> no_faults Write_stats" "\<not> no_faults Commit"
    by (simp_all add: no_faults_def)
  have s: "select_stats (pending example_conn) ''A1'' = Some stats_A1"
    by (simp add: select_stats_def example_ledger_defs)
  have t: "tokens_used (usage agent_msg) = JInt 15" "in_int64 15"
    by (simp_all add: tokens_used_def dict_get_def agent_msg_def in_int64_def)
  have p: "\<forall>r. select_stats (pending example_conn) ''A1'' = Some r \<longrightarrow>
             (\<exists>c t. total_conversations r = SInt c \<and> total_tokens_used r = SInt t
                    \<and> in_int64 (c + 1) \<and> in_int64 (t + 15))"
    by (simp add: s stats_A1_def in_int64_def)
  from save_conversation_updates_stats[OF h t p, of echo_prompt 6000000 user_msg]
  obtain conn' r' where
    "save_conversation echo_prompt no_faults 6000000 (Some example_conn) ''A1''
         user_msg agent_msg = (Inr (), Some conn')"
    "select_stats (durable conn') ''A1'' = Some r'"
    "last_used r' = Some 6000000"
    "\<exists>c t. total_conversations stats_A1 = SInt c \<and> total_tokens_used stats_A1 = SInt t
           \<and> total_conversations r' = SInt (c + 1) \<and> total_tokens_used r' = SInt (t + 15)"
    unfolding s by auto
  then have "\<exists>conn' r'.
         save_conversation echo_prompt no_faults 6000000 (Some example_conn) ''A1''
             user_msg agent_msg
           = (Inr (), Some conn')
       \<and> select_stats (durable conn') ''A1'' = Some r'
       \<and> last_used r' = Some 6000000
       \<and> total_conversations r' = SInt 3
       \<and> total_tokens_used r' = SInt 45"
    by (auto simp: stats_A1_def)
  with h s t show ?thesis by simp
qed

text \<open>
  C6 as stated fails, in three appends that all return normally. After an append whose
  usage has no total (\<^verbatim>\<open>total_tokens\<close> is \<^verbatim>\<open>None\<close>), an append with 15 total tokens counts
  the conversation but leaves the token count NULL. An append whose usage reports
  \<open>2 ^ 63\<close> total tokens creates no stats row. Neither does an append whose stats write
  fails in the storage layer.
\<close>

theorem save_conversation_stats_counterexample:
  "tokens_used (usage null_msg) = JNull
   \<and> tokens_used (usage agent_msg) = JInt 15
   \<and> durable_conversation_counts db_null = [SInt 1]
   \<and> durable_token_counts db_null = [SNull]
   \<and> fst (save_conversation echo_prompt no_faults 200 db_null ''A1'' user_msg agent_msg) = Inr ()
   \<and> durable_conversation_counts db_null_later = [SInt 2]
   \<and> durable_token_counts db_null_later = [SNull]
   \<and> tokens_used (usage huge_msg) = JInt (2 ^ 63)
   \<and> fst (save_conversation echo_prompt no_faults 100 init_db ''A1'' user_msg huge_msg) = Inr ()
   \<and> durable_stats_agents db_failed = []
   \<and> fst (save_conversation echo_prompt (fail_at Write_stats) 100 init_db ''A1''
            user_msg agent_msg) = Inr ()
   \<and> durable_stats_agents db_write_fault = []"
  by (simp add: db_null_later_def db_null_def db_failed_def db_write_fault_def
      durable_conversation_counts_def durable_token_counts_def durable_stats_agents_def
      ledger_defs user_msg_def agent_msg_def null_msg_def huge_msg_def)

text \<open>
  C3, as the code has it. If a storage failure occurs during \<^verbatim>\<open>save_conversation\<close> (at the
  Exchange insert, at the stats read or write, or at the commit), the call itself commits
  neither the Exchange row nor the stats delta: the durable tables after it are those
  before it. The failure is caught and printed inside \<^verbatim>\<open>save_conversation\<close>, which returns
  normally.
\<close>

theorem save_conversation_failure_not_committed:
  assumes "save_conversation_body ext fails now d agent_id um am = (Inl e, d')"
  shows "save_conversation ext fails now d agent_id um am = (Inr (), d')
       \<and> map_option durable d' = map_option durable d"
proof (cases d)
  case None
  with assms show ?thesis
    by (auto simp: save_conversation_def save_conversation_body_def)
next
  case (Some conn)
  show ?thesis
  proof (cases "fails Insert_conversation")
    case True
    with Some assms show ?thesis
      by (auto simp: save_conversation_def save_conversation_body_def failed_def
          split: if_splits)
  next
    case False
    define conn1 where
      "conn1 = conn\<lparr>pending := insert_conversation now agent_id um am (pending conn)\<rparr>"
    obtain res conn2 where
      u: "update_agent_stats ext fails now conn1 agent_id (usage am) = (res, conn2)"
      by (cases "update_agent_stats ext fails now conn1 agent_id (usage am)")
    from update_agent_stats_durable[OF u]
    have fr: "durable conn2 = durable conn"
      by (simp add: conn1_def)
    from assms Some False u obtain conn3 where "d' = Some conn3" "durable conn3 = durable conn2"
      by (auto simp: save_conversation_body_def Let_def conn1_def failed_def
          split: sum.splits if_splits)
    with assms fr Some show ?thesis
      by (simp add: save_conversation_def)
  qed
qed

theorem save_conversation_failure_not_committed_witness:
  "save_conversation_body echo_prompt no_faults 100 init_db ''A1'' user_msg huge_msg
     = (Inl OverflowError, db_failed)
   \<and> save_conversation echo_prompt no_faults 100 init_db ''A1'' user_msg huge_msg
     = (Inr (), db_failed)
   \<and> map_option durable db_failed = map_option durable init_db"
proof -
  have h: "save_conversation_body echo_prompt no_faults 100 init_db ''A1'' user_msg huge_msg
             = (Inl OverflowError, db_failed)"
    by (simp add: db_failed_def ledger_defs huge_msg_def)
  from save_conversation_failure_not_committed[OF h] h show ?thesis by simp
qed

text \<open>
  C3 as stated fails, with no fault injected: the usage of an append for A1 reports
  \<open>2 ^ 63\<close> total tokens, which the stats write cannot bind; the call returns normally, its
  Exchange row stays in the open transaction, and the next successful append (for A2)
  commits that row together with its own, while no stats row for A1 exists.
\<close>

theorem save_conversation_partial_commit_counterexample:
  "fst (save_conversation echo_prompt no_faults 100 init_db ''A1'' user_msg huge_msg) = Inr ()
   \<and> durable_conversation_agents db_failed = []
   \<and> durable_conversation_agents db_later = [''A1'', ''A2'']
   \<and> durable_stats_agents db_later = [''A2'']"
  by (simp add: db_later_def db_failed_def durable_conversation_agents_def
      durable_stats_agents_def ledger_defs user_msg_def agent_msg_def huge_msg_def)

text \<open>
  C9. For every value of \<open>days\<close>, whatever storage call fails, the purge leaves the stats
  table of the connection as it was (and commits no stats other than those the connection
  already held); every Exchange row and every log row it removes is older than the cutoff
  \<open>now - days\<close> days, and no row is added.
\<close>

theorem cleanup_old_data_keeps_stats:
  "\<exists>conn'. cleanup_old_data fails now (Some conn) days = Some conn'
     \<and> agent_stats (pending conn') = agent_stats (pending conn)
     \<and> (agent_stats (durable conn') = agent_stats (durable conn)
        \<or> agent_stats (durable conn') = agent_stats (pending conn))
     \<and> set (conversations (pending conn')) \<subseteq> set (conversations (pending conn))
     \<and> (\<forall>r \<in> set (conversations (pending conn)) - set (conversations (pending conn')).
           0 \<le> days \<and> c_created_at r < now - days * 86400)
     \<and> set (system_logs (pending conn')) \<subseteq> set (system_logs (pending conn))
     \<and> (\<forall>r \<in> set (system_logs (pending conn)) - set (system_logs (pending conn')).
           0 \<le> days \<and> l_timestamp r < now - days * 86400)"
  by (auto simp: cleanup_old_data_def cleanup_old_data_body_def commit_def Let_def
        older_than_def cutoff_def split: if_splits option.splits)

theorem cleanup_old_data_keeps_stats_witness:
  "\<exists>conn'. cleanup_old_data no_faults 5000100 (Some example_conn) 30 = Some conn'
     \<and> agent_stats (pending conn') = [stats_A1]
     \<and> agent_stats (durable conn') = [stats_A1]
     \<and> conversations (pending conn') = [recent_row]
     \<and> old_row \<in> set (conversations (pending example_conn)) - set (conversations (pending conn'))
     \<and> c_created_at old_row < 5000100 - 30 * 86400
     \<and> system_logs (pending conn') = [recent_log]
     \<and> old_log \<in> set (system_logs (pending example_conn)) - set (system_logs (pending conn'))
     \<and> l_timestamp old_log < 5000100 - 30 * 86400"
proof -
  from cleanup_old_data_keeps_stats[of no_faults 5000100 example_conn 30]
  obtain conn' where c: "cleanup_old_data no_faults 5000100 (Some example_conn) 30 = Some conn'"
    and s: "agent_stats (pending conn') = agent_stats (pending example_conn)"
    and "\<forall>r \<in> set (conversations (pending example_conn)) - set (conversations (pending conn')).
           0 \<le> (30::int) \<and> c_created_at r < 5000100 - 30 * 86400"
    by blast
  have v: "cleanup_old_data no_faults 5000100 (Some example_conn) 30 =
        Some \<lparr>durable = example_tables\<lparr>conversations := [recent_row], system_logs := [recent_log]\<rparr>,
              pending = example_tables\<lparr>conversations := [recent_row], system_logs := [recent_log]\<rparr>\<rparr>"
    by (simp add: cleanup_old_data_def cleanup_old_data_body_def commit_def Let_def
        older_than_def cutoff_def no_faults_def example_ledger_defs)
  with c have "conn' =
        \<lparr>durable = example_tables\<lparr>conversations := [recent_row], system_logs := [recent_log]\<rparr>,
         pending = example_tables\<lparr>conversations := [recent_row], system_logs := [recent_log]\<rparr>\<rparr>"
    by simp
  then have "agent_stats (pending conn') = [stats_A1]
     \<and> agent_stats (durable conn') = [stats_A1]
     \<and> conversations (pending conn') = [recent_row]
     \<and> old_row \<in> set (conversations (pending example_conn)) - set (conversations (pending conn'))
     \<and> c_created_at old_row < 5000100 - 30 * 86400
     \<and> system_logs (pending conn') = [recent_log]
     \<and> old_log \<in> set (system_logs (pending example_conn)) - set (system_logs (pending conn'))
     \<and> l_timestamp old_log < 5000100 - 30 * 86400"
    by (simp add: example_ledger_defs)
  with c show ?thesis by blast
qed

text \<open>
  C10. The three ledger reads return a plain value in every case: whenever the body of the
  read raises (no connection, a failing query, undecodable usage data), the history is the
  empty list, the stats are the absent value and the total is 0, which are also the
  results on an empty ledger.
\<close>

theorem ledger_reads_never_raise:
  "(get_conversation_history_body fails d agent_id limit = Inl e1 \<longrightarrow>
      get_conversation_history fails d agent_id limit = [])
   \<and> (get_agent_stats_body fails d agent_id = Inl e2 \<longrightarrow>
      get_agent_stats fails d agent_id = None)
   \<and> (get_total_conversations_body fails d = Inl e3 \<longrightarrow>
      get_total_conversations fails d = 0)
   \<and> get_conversation_history no_faults init_db agent_id limit = []
   \<and> get_agent_stats no_faults init_db agent_id = None
   \<and> get_total_conversations no_faults init_db = 0"
  by (simp add: get_conversation_history_def get_agent_stats_def get_total_conversations_def
        get_conversation_history_body_def get_agent_stats_body_def
        get_total_conversations_body_def no_faults_def init_db_def empty_tables_def
        select_stats_def sql_limit_def)

theorem ledger_reads_never_raise_witness:
  "get_conversation_history_body (fail_at Select_conversations) (Some example_conn) ''A1'' 50
     = Inl (StorageError Select_conversations)
   \<and> get_conversation_history (fail_at Select_conversations) (Some example_conn) ''A1'' 50 = []
   \<and> get_agent_stats_body (fail_at Select_stats) (Some example_conn) ''A1''
     = Inl (StorageError Select_stats)
   \<and> get_agent_stats (fail_at Select_stats) (Some example_conn) ''A1'' = None
   \<and> get_total_conversations_body no_faults None = Inl NoConnection
   \<and> get_total_conversations no_faults None = 0
   \<and> map h_id (get_conversation_history no_faults (Some example_conn) ''A1'' 50) = [2, 1]
   \<and> get_total_conversations no_faults (Some example_conn) = 2"
proof -
  have h1: "get_conversation_history_body (fail_at Select_conversations) (Some example_conn)
              ''A1'' 50 = Inl (StorageError Select_conversations)"
    by (simp add: get_conversation_history_body_def fail_at_def sql_limit_def in_int64_def)
  have h2: "get_agent_stats_body (fail_at Select_stats) (Some example_conn) ''A1''
              = Inl (StorageError Select_stats)"
    by (simp add: get_agent_stats_body_def fail_at_def)
  have h3: "get_total_conversations_body no_faults None = Inl NoConnection"
    by (simp add: get_total_conversations_body_def)
  have ok: "map h_id (get_conversation_history no_faults (Some example_conn) ''A1'' 50) = [2, 1]
            \<and> get_total_conversations no_faults (Some example_conn) = 2"
    by (simp add: get_conversation_history_def get_conversation_history_body_def
        get_total_conversations_def get_total_conversations_body_def no_faults_def
        sql_limit_def history_entry_of_def example_ledger_defs in_int64_def)
  from ledger_reads_never_raise[where fails = "fail_at Select_conversations"
      and d = "Some example_conn" and agent_id = "''A1''" and limit = 50] h1
  have r1: "get_conversation_history (fail_at Select_conversations) (Some example_conn) ''A1'' 50
              = []"
    by simp
  from ledger_reads_never_raise[where fails = "fail_at Select_stats"
      and d = "Some example_conn" and agent_id = "''A1''"] h2
  have r2: "get_agent_stats (fail_at Select_stats) (Some example_conn) ''A1'' = None"
    by blast
  from ledger_reads_never_raise[where fails = no_faults and d = None] h3
  have r3: "get_total_conversations no_faults None = 0"
    by blast
  from h1 h2 h3 r1 r2 r3 ok show ?thesis by simp
qed


section \<open>Properties of the provider catalog\<close>

lemma split_dot_plain: "CHR ''.'' \<notin> set p \<Longrightarrow> split_dot p = [p]"
  by (induction p) auto

lemma split_dot_prefix:
  "split_dot (''models.providers.'' @ p) = ''models'' # ''providers'' # split_dot p"
  by simp

lemma split_dot_catalog: "split_dot ''models.providers'' = [''models'', ''providers'']"
  by simp

lemma get_path_append:
  "get_path v (ks @ ks') = (case get_path v ks of None \<Rightarrow> None | Some v' \<Rightarrow> get_path v' ks')"
  by (induction v ks rule: get_path.induct) (auto split: option.splits)

lemma get_model_config_entry:
  assumes cat: "cm_get config ''models.providers'' (JDict []) = JDict ps"
      and p: "CHR ''.'' \<notin> set p" and e: "map_of ps p = Some e"
  shows "get_model_config config p = e"
proof -
  from e have "ps \<noteq> []" by auto
  with cat have "get_path config [''models'', ''providers''] = Some (JDict ps)"
    by (auto simp: cm_get_def split_dot_catalog split: option.splits)
  then have "get_path config ([''models'', ''providers''] @ [p]) = Some e"
    using e by (simp only: get_path_append) simp
  then show ?thesis
    by (simp only: get_model_config_def cm_get_def split_dot_prefix split_dot_plain[OF p]) simp
qed

lemma is_provider_configured_entry:
  assumes "get_model_config config p = JDict d"
      and "\<forall>v. map_of d ''api_key_env'' = Some v \<longrightarrow> (\<exists>k. v = JStr k)"
  shows "is_provider_configured env config p =
           Inr (\<exists>k. map_of d ''api_key_env'' = Some (JStr k) \<and> k \<noteq> [] \<and> env k \<noteq> None)"
proof (cases "map_of d ''api_key_env''")
  case None
  with assms show ?thesis
    by (cases d) (auto simp: is_provider_configured_def dict_get_def Let_def)
next
  case (Some v)
  with assms obtain k where "v = JStr k" by auto
  with Some assms show ?thesis
    by (cases d) (auto simp: is_provider_configured_def dict_get_def Let_def)
qed

lemma keys_dict_set: "fst ` set (dict_set d k v) = insert k (fst ` set d)"
proof -
  have "map fst (dict_set d k v) = (if k \<in> fst ` set d then map fst d else map fst d @ [k])"
    by (induction d) (force simp: image_iff)+
  then have "set (map fst (dict_set d k v)) = insert k (fst ` set d)"
    by (auto split: if_splits)
  then show ?thesis by simp
qed

lemma available_loop_keys:
  assumes "\<forall>(p, e) \<in> set items.
             is_provider_configured env config p = Inr (conf e) \<and> (\<exists>d. e = JDict d)"
  shows "\<exists>avail. available_loop env config items acc = Inr avail
           \<and> fst ` set avail = fst ` set acc \<union> {p. \<exists>e. (p, e) \<in> set items \<and> conf e}"
  using assms
proof (induction items arbitrary: acc)
  case Nil
  then show ?case by simp
next
  case (Cons item items)
  obtain p e where item: "item = (p, e)" by (cases item)
  with Cons.prems obtain d where c: "is_provider_configured env config p = Inr (conf e)"
    and d: "e = JDict d" by auto
  from Cons.prems have rest: "\<forall>(p, e) \<in> set items.
      is_provider_configured env config p = Inr (conf e) \<and> (\<exists>d. e = JDict d)" by simp
  show ?case
  proof (cases "conf e")
    case True
    from Cons.IH[OF rest, of "dict_set acc p (dict_get d ''models'' (JList []))"]
    show ?thesis using item c d True by (auto simp: keys_dict_set)
  next
    case False
    from Cons.IH[OF rest, of acc]
    show ?thesis using item c d False by auto
  qed
qed

lemmas catalog_defs = get_available_models_def default_config_def default_providers_def
  cm_get_def is_provider_configured_def get_model_config_def dict_get_def

text \<open>
  C7, as the code has it. Let the catalog (the dictionary at \<^verbatim>\<open>models.providers\<close>) have
  entries that are dictionaries whose \<^verbatim>\<open>api_key_env\<close>, if present, is a string, under
  provider names without a dot (an entry is looked up by dot path). Then
  \<^verbatim>\<open>get_available_models\<close> includes a provider of the catalog if and only if its entry
  declares a non-empty credential-lookup key and that variable is set in the process
  environment; a variable set to the empty string counts as set.
\<close>

theorem available_models_iff_variable_set:
  assumes cat: "cm_get config ''models.providers'' (JDict []) = JDict ps"
      and dist: "distinct (map fst ps)"
      and wf: "\<forall>(p, e) \<in> set ps. CHR ''.'' \<notin> set p \<and>
                 (\<exists>d. e = JDict d \<and>
                    (\<forall>v. map_of d ''api_key_env'' = Some v \<longrightarrow> (\<exists>k. v = JStr k)))"
  shows "\<exists>avail. get_available_models env config = Inr avail \<and>
           (\<forall>(p, e) \<in> set ps. (p \<in> fst ` set avail) =
              (\<exists>d k. e = JDict d \<and> map_of d ''api_key_env'' = Some (JStr k)
                      \<and> k \<noteq> [] \<and> env k \<noteq> None))"
proof -
  let ?conf = "\<lambda>e. \<exists>d k. e = JDict d \<and> map_of d ''api_key_env'' = Some (JStr k)
                          \<and> k \<noteq> [] \<and> env k \<noteq> None"
  have each: "\<forall>(p, e) \<in> set ps.
                is_provider_configured env config p = Inr (?conf e) \<and> (\<exists>d. e = JDict d)"
  proof (clarify)
    fix p e assume pe: "(p, e) \<in> set ps"
    with wf obtain d where nd: "CHR ''.'' \<notin> set p" and ed: "e = JDict d"
      and ty: "\<forall>v. map_of d ''api_key_env'' = Some v \<longrightarrow> (\<exists>k. v = JStr k)" by auto
    from pe dist have "map_of ps p = Some e" by simp
    from get_model_config_entry[OF cat nd this] ed
    have "get_model_config config p = JDict d" by simp
    from is_provider_configured_entry[OF this ty, of env] ed
    show "is_provider_configured env config p = Inr (?conf e) \<and> (\<exists>d. e = JDict d)" by simp
  qed
  from available_loop_keys[of ps env config ?conf "[]", OF each]
  obtain avail where run: "available_loop env config ps [] = Inr avail"
    and keys: "fst ` set avail = {p. \<exists>e. (p, e) \<in> set ps \<and> ?conf e}" by auto
  have "\<forall>(p, e) \<in> set ps. (p \<in> fst ` set avail) = ?conf e"
  proof (clarify)
    fix p e assume pe: "(p, e) \<in> set ps"
    have "(\<exists>e'. (p, e') \<in> set ps \<and> ?conf e') = ?conf e"
    proof
      assume "\<exists>e'. (p, e') \<in> set ps \<and> ?conf e'"
      then obtain e' where e': "(p, e') \<in> set ps" "?conf e'" by blast
      from e'(1) pe dist have "e' = e" by (meson eq_key_imp_eq_value)
      with e'(2) show "?conf e" by simp
    next
      assume "?conf e" with pe show "\<exists>e'. (p, e') \<in> set ps \<and> ?conf e'" by blast
    qed
    with keys show "(p \<in> fst ` set avail) = ?conf e" by simp
  qed
  with run cat show ?thesis by (simp add: get_available_models_def)
qed

theorem available_models_iff_variable_set_witness:
  "cm_get default_config ''models.providers'' (JDict []) = JDict default_providers
   \<and> distinct (map fst default_providers)
   \<and> env_openai ''OPENAI_API_KEY'' = Some ''sk-1''
   \<and> env_openai ''GEMINI_API_KEY'' = None
   \<and> (\<exists>avail. get_available_models env_openai default_config = Inr avail
        \<and> ''openai'' \<in> fst ` set avail \<and> ''gemini'' \<notin> fst ` set avail)"
proof -
  have cat: "cm_get default_config ''models.providers'' (JDict []) = JDict default_providers"
    by (simp add: cm_get_def default_config_def default_providers_def)
  have dist: "distinct (map fst default_providers)"
    by (simp add: default_providers_def)
  have wf: "\<forall>(p, e) \<in> set default_providers. CHR ''.'' \<notin> set p \<and>
              (\<exists>d. e = JDict d \<and>
                 (\<forall>v. map_of d ''api_key_env'' = Some v \<longrightarrow> (\<exists>k. v = JStr k)))"
    by (simp add: default_providers_def)
  have env: "env_openai ''OPENAI_API_KEY'' = Some ''sk-1''" "env_openai ''GEMINI_API_KEY'' = None"
    by (simp_all add: env_openai_def)
  from available_models_iff_variable_set[OF cat dist wf, of env_openai]
  obtain avail where run: "get_available_models env_openai default_config = Inr avail"
    and iff: "\<forall>(p, e) \<in> set default_providers. (p \<in> fst ` set avail) =
              (\<exists>d k. e = JDict d \<and> map_of d ''api_key_env'' = Some (JStr k)
                      \<and> k \<noteq> [] \<and> env_openai k \<noteq> None)"
    by blast
  from iff env have "''openai'' \<in> fst ` set avail \<and> ''gemini'' \<notin> fst ` set avail"
    by (simp add: default_providers_def)
  with run cat dist env show ?thesis by blast
qed

text \<open>
  C7 as stated fails: with \<^verbatim>\<open>OPENAI_API_KEY\<close> set to the empty string, the provider
  \<^verbatim>\<open>openai\<close> is listed as available.
\<close>

theorem empty_credential_counts_counterexample:
  "env_blank_openai ''OPENAI_API_KEY'' = Some []
   \<and> get_available_models env_blank_openai default_config
       = Inr [(''openai'', JList [JStr ''gpt-3.5-turbo'', JStr ''gpt-4'',
                                   JStr ''gpt-4-turbo-preview''])]"
  by (simp add: catalog_defs env_blank_openai_def)

section \<open>Properties of the runtime handles\<close>

text \<open>
  A provider name that is not one of the three fixed in \<^verbatim>\<open>_get_model\<close> never reaches the
  model library: the build fails with "Unsupported model provider". For the three names
  the outcome is that of the library's constructors.
\<close>

lemma create_agent_instance_unknown_provider:
  assumes "dict_get agent_config ''model_provider'' (JStr ''openai'') = provider"
      and "provider \<noteq> JStr ''openai''" "provider \<noteq> JStr ''anthropic''"
          "provider \<noteq> JStr ''gemini''"
  shows "create_agent_instance ext agent_config =
           Inl (FailedToCreateAgentInstance (UnsupportedModelProvider provider))"
  using assms
  by (simp add: create_agent_instance_def create_agent_instance_body_def get_model_def Let_def)

lemma create_agent_instance_library_refuses:
  assumes "\<And>m. model_raises ext m"
      and "dict_get agent_config ''model_provider'' (JStr ''openai'') = JStr ''openai''"
  shows "create_agent_instance ext agent_config = Inl (FailedToCreateAgentInstance LibraryError)"
  using assms
  by (simp add: create_agent_instance_def create_agent_instance_body_def get_model_def
      construct_def Let_def)

section \<open>Properties of the definition store and the request handlers\<close>


lemma map_of_dict_del: "map_of (dict_del d k) k = None"
  by (induction d) (auto simp: dict_del_def)





text \<open>
  The update route and the toggle route leave \<^verbatim>\<open>active_agents\<close> as it is; the delete route
  removes the handle. A cached handle is used without reading the definition.
\<close>

lemma api_update_agent_keeps_handles:
  "active_agents (snd (api_update_agent now io st agent_id draft)) = active_agents st"
  by (simp add: api_update_agent_def split: prod.splits sum.splits)

lemma toggle_agent_keeps_handles:
  "active_agents (snd (toggle_agent now io st agent_id)) = active_agents st"
  by (simp add: toggle_agent_def Let_def split: prod.splits sum.splits option.splits)

lemma api_delete_agent_evicts:
  "fst (api_delete_agent st agent_id) = Inr () \<Longrightarrow>
   map_of (active_agents (snd (api_delete_agent st agent_id))) agent_id = None"
  by (auto simp: api_delete_agent_def map_of_dict_del split: prod.splits sum.splits)

lemma chat_with_cached_handle:
  "map_of (active_agents st) agent_id = Some agent \<Longrightarrow> run ext agent msg = Inr r \<Longrightarrow>
   fst (chat_with_agent ext fails t_user t_agent now st agent_id msg)
     = Inr (data r, result_usage r)"
  by (simp add: chat_with_agent_def get_or_create_instance_def Let_def)

lemma chat_disabled_without_handle:
  "map_of (active_agents st) agent_id = None \<Longrightarrow> get_agent (manager st) agent_id = Some cfg \<Longrightarrow>
   cfg \<noteq> [] \<Longrightarrow> \<not> truthy (dict_get cfg ''enabled'' (JBool False)) \<Longrightarrow>
   chat_with_agent ext fails t_user t_agent now st agent_id msg
     = (Inl (HTTPException 400 ''Agent is disabled''), st)"
  by (simp add: chat_with_agent_def get_or_create_instance_def)

lemmas app_defs = app0_def draft_A_def bad_draft_def echo_prompt_def handle_A_def
  api_create_agent_def create_agent_def write_file_def to_dict_def
  dict_update_def chat_with_agent_def get_or_create_instance_def get_agent_def
  create_agent_instance_def create_agent_instance_body_def get_model_def construct_def
  iterate_def
  dict_get_def history_append_def save_conversation_def save_conversation_body_def
  update_agent_stats_def insert_conversation_def select_stats_def tokens_used_def
  new_stats_row_def update_stats_row_def commit_def init_db_def empty_tables_def no_faults_def
  integer_affinity_def in_int64_def
  api_update_agent_def update_agent_def stamp_update_def toggle_agent_def
  get_total_conversations_def get_total_conversations_body_def Let_def

lemma app_created_value:
  "app_created = app0\<lparr>manager :=
     \<lparr>agents_cache = [(''A1'', to_dict draft_A @
          [(''id'', JStr ''A1''), (''created_at'', JStr ''t0''), (''updated_at'', JStr ''t0'')])],
      agent_files = [(''A1'', Json (to_dict draft_A @
          [(''id'', JStr ''A1''), (''created_at'', JStr ''t0''), (''updated_at'', JStr ''t0'')]))]\<rparr>\<rparr>"
  by (simp add: app_created_def app_defs)

lemma app_chatted_handle:
  "active_agents app_chatted =
     [(''A1'', \<lparr>h_model = OpenAIModel (JStr ''gpt-4'') (JReal 0.7) (JInt 1000),
               h_system_prompt = JStr ''old prompt'', h_tools = []\<rparr>)]"
  by (simp add: app_chatted_def app_created_value app_defs)

lemma app_chatted_manager: "manager app_chatted = manager app_created"
  by (simp add: app_chatted_def app_created_value app_defs)

lemma app_chatted_total: "get_total_conversations no_faults (database app_chatted) = 1"
  by (simp add: app_chatted_def app_created_value app_defs)

text \<open>
  C1. Evaluated at the failing input: agent A1 has a cached handle built from the prompt
  "old prompt"; the update to "new prompt" succeeds and is stored; the handle stays in
  \<^verbatim>\<open>active_agents\<close>, and the next send is answered by the handle with the old prompt.
\<close>

theorem update_serves_stale_handle:
  "map_of (active_agents app_chatted) ''A1'' \<noteq> None
   \<and> fst (api_update_agent ''t3'' Written app_chatted ''A1''
             (draft_A\<lparr>system_prompt := ''new prompt''\<rparr>)) = Inr ()
   \<and> map_option (\<lambda>c. dict_get c ''system_prompt'' JNull) (get_agent (manager app_updated) ''A1'')
       = Some (JStr ''new prompt'')
   \<and> map_option h_system_prompt (map_of (active_agents app_updated) ''A1'')
       = Some (JStr ''old prompt'')
   \<and> fst (chat_with_agent echo_prompt no_faults ''t4'' ''t5'' 200 app_updated ''A1'' ''hi'')
       = Inr (''old prompt'', None)"
proof -
  have a: "active_agents app_updated = active_agents app_chatted"
    by (simp add: app_updated_def api_update_agent_keeps_handles)
  have u: "fst (api_update_agent ''t3'' Written app_chatted ''A1''
             (draft_A\<lparr>system_prompt := ''new prompt''\<rparr>)) = Inr ()"
    by (simp add: api_update_agent_def update_agent_def app_chatted_manager app_created_value
        app0_def Let_def)
  have m: "map_option (\<lambda>c. dict_get c ''system_prompt'' JNull)
             (get_agent (manager app_updated) ''A1'') = Some (JStr ''new prompt'')"
    by (simp add: app_updated_def api_update_agent_def update_agent_def app_chatted_manager
        app_created_value app0_def get_agent_def stamp_update_def dict_update_def to_dict_def
        draft_A_def dict_get_def write_file_def Let_def)
  have c: "fst (chat_with_agent echo_prompt no_faults ''t4'' ''t5'' 200 app_updated ''A1'' ''hi'')
             = Inr (''old prompt'', None)"
    by (simp add: chat_with_agent_def get_or_create_instance_def a app_chatted_handle
        echo_prompt_def Let_def)
  from a u m c show ?thesis by (simp add: app_chatted_handle)
qed

text \<open>
  C2. Evaluated at the failing input: agent A1 has a cached handle and is then disabled by
  the toggle route; the stored definition has \<^verbatim>\<open>enabled\<close> false, the ledger holds one
  Exchange; the next send succeeds and the ledger holds two.
\<close>

theorem disabled_agent_with_handle_answers:
  "map_of (active_agents app_chatted) ''A1'' \<noteq> None
   \<and> fst (toggle_agent ''t3'' Written app_chatted ''A1'') = Inr False
   \<and> map_option (\<lambda>c. dict_get c ''enabled'' (JBool True)) (get_agent (manager app_toggled) ''A1'')
       = Some (JBool False)
   \<and> get_total_conversations no_faults (database app_toggled) = 1
   \<and> fst (chat_with_agent echo_prompt no_faults ''t4'' ''t5'' 200 app_toggled ''A1'' ''hi again'')
       = Inr (''old prompt'', None)
   \<and> get_total_conversations no_faults
        (database (snd (chat_with_agent echo_prompt no_faults ''t4'' ''t5'' 200 app_toggled
                          ''A1'' ''hi again''))) = 2"
proof -
  have a: "active_agents app_toggled = active_agents app_chatted"
    by (simp add: app_toggled_def toggle_agent_keeps_handles)
  have t: "fst (toggle_agent ''t3'' Written app_chatted ''A1'') = Inr False"
    by (simp add: toggle_agent_def update_agent_def get_agent_def app_chatted_manager
        app_created_value app0_def to_dict_def draft_A_def dict_get_def Let_def)
  have m: "map_option (\<lambda>c. dict_get c ''enabled'' (JBool True))
             (get_agent (manager app_toggled) ''A1'') = Some (JBool False)"
    by (simp add: app_toggled_def toggle_agent_def update_agent_def get_agent_def
        app_chatted_manager app_created_value app0_def to_dict_def draft_A_def dict_get_def
        stamp_update_def dict_update_def write_file_def Let_def)
  have d: "database app_toggled = database app_chatted"
    by (simp add: app_toggled_def toggle_agent_def Let_def
        split: prod.splits sum.splits option.splits)
  have c: "fst (chat_with_agent echo_prompt no_faults ''t4'' ''t5'' 200 app_toggled ''A1''
                  ''hi again'') = Inr (''old prompt'', None)"
    by (simp add: chat_with_agent_def get_or_create_instance_def a app_chatted_handle
        echo_prompt_def Let_def)
  have n: "get_total_conversations no_faults
        (database (snd (chat_with_agent echo_prompt no_faults ''t4'' ''t5'' 200 app_toggled
                          ''A1'' ''hi again''))) = 2"
    by (simp add: a app_chatted_handle d app_chatted_def app_created_value app_defs)
  from a t m d c n show ?thesis by (simp add: app_chatted_handle app_chatted_total)
qed




section \<open>Properties of the runtime session cache\<close>










end
